theory Spec2Isabelle
  imports Main
begin

section \<open>The memo store of src/note.ts\<close>

subsection \<open>Values, memos and errors\<close>

text \<open>
  The store reads two properties of the objects it is handed, \<open>data\<close> and \<open>author\<close>.
  The schema types both as strings; at run time a property read gives a string or
  \<open>undefined\<close>, and the checks of \<open>add\<close> and \<open>update\<close> tell the two apart, so the
  model keeps both.
\<close>

datatype jsval = Undefined | Str string

text \<open>\<open>type Memo = { data: string, author: string }\<close>, as an object in the array.\<close>

record Memo =
  data :: jsval
  author :: jsval

text \<open>
  \<open>Partial<Memo>\<close>, the argument of \<open>update\<close>: each of the two own properties may be
  missing from the object (\<open>None\<close>) or present; a present property holds a string or,
  as the type \<open>data?: string\<close> allows, \<open>undefined\<close>. A missing property and one
  holding \<open>undefined\<close> read alike (\<open>memo.data === undefined\<close>), but the object spread
  copies a property that is present and skips one that is missing.
\<close>

record Partial_Memo =
  data_prop :: "jsval option"
  author_prop :: "jsval option"

text \<open>Reading a property: \<open>memo.data\<close> is \<open>undefined\<close> when the property is missing.\<close>

definition prop_read :: "jsval option \<Rightarrow> jsval" where
  "prop_read p = (case p of None \<Rightarrow> Undefined | Some v \<Rightarrow> v)"

text \<open>\<open>!v\<close>: \<open>undefined\<close> and the empty string are the falsy values of the two kinds.\<close>

fun falsy :: "jsval \<Rightarrow> bool" where
  "falsy Undefined = True"
| "falsy (Str s) = (s = [])"

text \<open>
  \<open>{ ...old, ...memo }\<close>: the properties of \<open>old\<close>, each replaced by the property of
  the same name that \<open>memo\<close> owns, whatever that one holds.
\<close>

definition spread :: "Memo \<Rightarrow> Partial_Memo \<Rightarrow> Memo" where
  "spread old memo =
     \<lparr> data = (case data_prop memo of None \<Rightarrow> data old | Some v \<Rightarrow> v),
       author = (case author_prop memo of None \<Rightarrow> author old | Some v \<Rightarrow> v) \<rparr>"

text \<open>
  Every failure is a \<open>throw new Error(message)\<close>. The messages begin with
  \<open>Invalid memo:\<close> or \<open>Invalid index:\<close>; the constructor records which, the
  argument is the message.
\<close>

datatype error = InvalidMemo string | InvalidIndex string

fun message :: "error \<Rightarrow> string" where
  "message (InvalidMemo msg) = msg"
| "message (InvalidIndex msg) = msg"

subsection \<open>The class Note\<close>

text \<open>
  The object state is the private array \<open>this.data\<close>. A method returns its result, or
  the error it throws, together with the state it leaves behind. Memos are values
  here: the model does not follow the identity of the objects in the array, which no
  method of the class depends on.
\<close>

record Note =
  this_data :: "Memo list"

definition seed :: Memo where
  "seed = \<lparr> data = Str ''Moonhalo'', author = Str ''saltyaom'' \<rparr>"

text \<open>
  \<open>constructor(initialData = [seed])\<close>: \<open>None\<close> is the call without an argument,
  which takes the default; the array is copied.
\<close>

definition new_Note :: "Memo list option \<Rightarrow> Note" where
  "new_Note initialData =
     (case initialData of
        None \<Rightarrow> \<lparr> this_data = [seed] \<rparr>
      | Some ms \<Rightarrow> \<lparr> this_data = ms \<rparr>)"

text \<open>
  Indices are JavaScript numbers; the model covers the integer ones, which are the
  ones the specification speaks of.
\<close>

definition isValidIndex :: "Note \<Rightarrow> int \<Rightarrow> bool" where
  "isValidIndex note index \<longleftrightarrow> index \<ge> 0 \<and> index < int (length (this_data note))"

definition add :: "Note \<Rightarrow> Memo \<Rightarrow> (error + Memo list) \<times> Note" where
  "add note memo =
     (if falsy (data memo) \<or> falsy (author memo)
      then (Inl (InvalidMemo ''Invalid memo: 'data' and 'author' fields are required.''), note)
      else let note' = note \<lparr> this_data := this_data note @ [memo] \<rparr>
           in (Inr (this_data note'), note'))"

text \<open>
  \<open>Array.prototype.splice(start, deleteCount)\<close> on integer arguments, after
  ECMAScript: a negative start counts from the end, both arguments are clamped to the
  array, and the elements from \<open>start\<close> on, \<open>deleteCount\<close> of them, leave the array.
\<close>

definition splice :: "'a list \<Rightarrow> int \<Rightarrow> int \<Rightarrow> 'a list" where
  "splice xs start deleteCount =
     (let len = int (length xs);
          actualStart = (if start < 0 then max (len + start) 0 else min start len);
          actualDeleteCount = min (max deleteCount 0) (len - actualStart)
      in take (nat actualStart) xs @ drop (nat (actualStart + actualDeleteCount)) xs)"

text \<open>\<open>remove\<close> splices a copy, \<open>updated\<close>, and returns it; \<open>this.data\<close> is not assigned.\<close>

definition remove :: "Note \<Rightarrow> int \<Rightarrow> (error + Memo list) \<times> Note" where
  "remove note index =
     (if \<not> isValidIndex note index
      then (Inl (InvalidIndex ''Invalid index: Unable to remove memo.''), note)
      else let updated = this_data note;
               updated = splice updated index 1
           in (Inr updated, note))"

definition update :: "Note \<Rightarrow> int \<Rightarrow> Partial_Memo \<Rightarrow> (error + Memo) \<times> Note" where
  "update note index memo =
     (if \<not> isValidIndex note index
      then (Inl (InvalidIndex ''Invalid index: Unable to update memo.''), note)
      else if prop_read (data_prop memo) = Undefined \<and> prop_read (author_prop memo) = Undefined
      then (Inl (InvalidMemo
              ''Invalid memo: At least one field ('data' or 'author') is required to update.''),
            note)
      else let note' = note \<lparr> this_data :=
                 (this_data note) [nat index := spread (this_data note ! nat index) memo] \<rparr>
           in (Inr (this_data note' ! nat index), note'))"

definition get :: "Note \<Rightarrow> int \<Rightarrow> (error + Memo) \<times> Note" where
  "get note index =
     (if \<not> isValidIndex note index
      then (Inl (InvalidIndex ''Invalid index: Unable to retrieve memo.''), note)
      else (Inr (this_data note ! nat index), note))"

definition getAll :: "Note \<Rightarrow> Memo list \<times> Note" where
  "getAll note = (this_data note, note)"

definition clear :: "Note \<Rightarrow> Memo list \<times> Note" where
  "clear note = ([], note \<lparr> this_data := [] \<rparr>)"

definition count :: "Note \<Rightarrow> nat \<times> Note" where
  "count note = (length (this_data note), note)"

subsection \<open>The routes under /note\<close>

text \<open>
  A handler returns the value of the store method, or \<open>error(status, e.message)\<close> for
  the error it catches. \<open>username\<close> is what the \<open>getUserId\<close> plugin resolved from the
  session and \<open>index\<close> is the validated path parameter. The validated body is an
  object with a string \<open>data\<close>, the field \<open>body_data\<close>; whatever else the client put
  into the body is the extension of the record.
\<close>

record Body =
  body_data :: string

datatype 'a response = Returned 'a | ErrorStatus nat string

definition respond :: "nat \<Rightarrow> (error + 'a) \<times> Note \<Rightarrow> 'a response \<times> Note" where
  "respond status r =
     (case fst r of
        Inr v \<Rightarrow> (Returned v, snd r)
      | Inl e \<Rightarrow> (ErrorStatus status (message e), snd r))"

text \<open>\<open>.decorate("note", new Note())\<close>\<close>

definition note_decorated :: Note where
  "note_decorated = new_Note None"

text \<open>\<open>.get("/", ...)\<close>\<close>

definition get_note :: "Note \<Rightarrow> Memo list response \<times> Note" where
  "get_note note = (Returned (fst (getAll note)), snd (getAll note))"

text \<open>\<open>.put("/", ...)\<close>\<close>

definition put_note :: "Note \<Rightarrow> 'a Body_scheme \<Rightarrow> string \<Rightarrow> Memo list response \<times> Note" where
  "put_note note body username =
     respond 400 (add note \<lparr> data = Str (body_data body), author = Str username \<rparr>)"

text \<open>\<open>.get("/:index", ...)\<close>\<close>

definition get_note_index :: "Note \<Rightarrow> int \<Rightarrow> Memo response \<times> Note" where
  "get_note_index note index = respond 404 (get note index)"

text \<open>\<open>.delete("/:index", ...)\<close>\<close>

definition delete_note_index :: "Note \<Rightarrow> int \<Rightarrow> Memo list response \<times> Note" where
  "delete_note_index note index = respond 422 (remove note index)"

text \<open>\<open>.patch("/:index", ...)\<close>\<close>

definition patch_note_index ::
    "Note \<Rightarrow> int \<Rightarrow> 'a Body_scheme \<Rightarrow> string \<Rightarrow> Memo response \<times> Note" where
  "patch_note_index note index body username =
     respond 422
       (update note index
          \<lparr> data_prop = Some (Str (body_data body)), author_prop = Some (Str username) \<rparr>)"

section \<open>Properties of the store\<close>

subsection \<open>What each method does on each branch\<close>

lemma falsy_iff: "falsy v \<longleftrightarrow> v = Undefined \<or> v = Str []"
  by (cases v) simp_all

lemma splice_one:
  "0 \<le> i \<Longrightarrow> i < int (length xs) \<Longrightarrow> splice xs i 1 = take (nat i) xs @ drop (Suc (nat i)) xs"
  by (simp add: splice_def Let_def nat_add_distrib)

lemma update_applies:
  assumes "isValidIndex note i"
    and "prop_read (data_prop p) \<noteq> Undefined \<or> prop_read (author_prop p) \<noteq> Undefined"
  shows "update note i p =
           (Inr (spread (this_data note ! nat i) p),
            note \<lparr> this_data := (this_data note) [nat i := spread (this_data note ! nat i) p] \<rparr>)"
  using assms by (auto simp: update_def Let_def isValidIndex_def)

lemma isValidIndex_note_decorated: "isValidIndex note_decorated 0"
  by (simp add: isValidIndex_def note_decorated_def new_Note_def)

subsection \<open>remove\<close>

text \<open>
  Claim C1: on a store of \<open>n \<ge> 1\<close> memos and a valid index \<open>i\<close>, \<open>remove(i)\<close> followed
  by \<open>list()\<close> yields \<open>n - 1\<close> memos, every memo after \<open>i\<close> one position lower.
  The code does not do that. \<open>remove\<close> splices a copy and never writes \<open>this.data\<close>:
  on the seeded store with \<open>{data: "hello", author: "alice"}\<close> added, \<open>remove(0)\<close>
  returns the one remaining memo, and \<open>getAll()\<close> afterwards still returns both
  memos, with the seed still at position 0.
\<close>

theorem remove_then_getAll_keeps_every_memo:
  "fst (remove (snd (add note_decorated \<lparr> data = Str ''hello'', author = Str ''alice'' \<rparr>)) 0)
     = Inr [\<lparr> data = Str ''hello'', author = Str ''alice'' \<rparr>] \<and>
   fst (getAll (snd (remove (snd (add note_decorated \<lparr> data = Str ''hello'', author = Str ''alice'' \<rparr>)) 0)))
     = [seed, \<lparr> data = Str ''hello'', author = Str ''alice'' \<rparr>] \<and>
   fst (get (snd (remove (snd (add note_decorated \<lparr> data = Str ''hello'', author = Str ''alice'' \<rparr>)) 0)) 0)
     = Inr seed"
  by (simp add: getAll_def get_def remove_def add_def splice_def note_decorated_def new_Note_def
      Let_def isValidIndex_def)

text \<open>
  Claim C2: for every store and every index, valid or not, \<open>remove\<close> leaves the stored
  sequence exactly as it was. On a valid index it returns the sequence with the entry
  at that index left out; on an invalid one it throws \<open>InvalidIndex\<close>.
\<close>

theorem remove_leaves_store:
  "snd (remove note i) = note \<and>
   (isValidIndex note i \<longrightarrow>
      fst (remove note i) = Inr (take (nat i) (this_data note) @ drop (Suc (nat i)) (this_data note))) \<and>
   (\<not> isValidIndex note i \<longrightarrow> (\<exists>msg. fst (remove note i) = Inl (InvalidIndex msg)))"
  by (simp add: remove_def Let_def splice_one isValidIndex_def)

theorem remove_leaves_store_witness:
  "isValidIndex note_decorated 0 \<and> \<not> isValidIndex note_decorated 1 \<and>
   snd (remove note_decorated 0) = note_decorated \<and>
   fst (remove note_decorated 0) = Inr [] \<and>
   snd (remove note_decorated 1) = note_decorated \<and>
   (\<exists>msg. fst (remove note_decorated 1) = Inl (InvalidIndex msg))"
  using remove_leaves_store [of note_decorated 0] remove_leaves_store [of note_decorated 1]
  by (simp add: isValidIndex_def note_decorated_def new_Note_def)

subsection \<open>The checks on memos and on indices\<close>

text \<open>
  Claim C3, as amended: the check of \<open>add\<close> rejects with \<open>InvalidMemo\<close> exactly when
  \<open>data\<close> or \<open>author\<close> of the memo is empty or undefined; the check of \<open>update\<close>, at a
  valid index, rejects with \<open>InvalidMemo\<close> exactly when \<open>data\<close> and \<open>author\<close> of the
  partial memo are both undefined. \<open>update\<close> does not look at whether a supplied or a
  merged field is empty.
\<close>

theorem invalid_memo_checks:
  "((\<exists>msg. fst (add note m) = Inl (InvalidMemo msg)) \<longleftrightarrow>
      data m = Undefined \<or> data m = Str [] \<or> author m = Undefined \<or> author m = Str []) \<and>
   (isValidIndex note i \<longrightarrow>
      ((\<exists>msg. fst (update note i p) = Inl (InvalidMemo msg)) \<longleftrightarrow>
         prop_read (data_prop p) = Undefined \<and> prop_read (author_prop p) = Undefined))"
  by (auto simp: add_def update_def Let_def falsy_iff)

theorem invalid_memo_checks_witness:
  "isValidIndex note_decorated 0 \<and>
   (\<exists>msg. fst (add note_decorated \<lparr> data = Str [], author = Str ''x'' \<rparr>) = Inl (InvalidMemo msg)) \<and>
   (\<exists>msg. fst (update note_decorated 0 \<lparr> data_prop = None, author_prop = Some Undefined \<rparr>)
             = Inl (InvalidMemo msg)) \<and>
   \<not> (\<exists>msg. fst (update note_decorated 0 \<lparr> data_prop = Some (Str []), author_prop = None \<rparr>)
             = Inl (InvalidMemo msg))"
  using invalid_memo_checks [of note_decorated "\<lparr> data = Str [], author = Str ''x'' \<rparr>" 0
          "\<lparr> data_prop = None, author_prop = Some Undefined \<rparr>"]
        invalid_memo_checks [of note_decorated "\<lparr> data = Str [], author = Str ''x'' \<rparr>" 0
          "\<lparr> data_prop = Some (Str []), author_prop = None \<rparr>"]
        isValidIndex_note_decorated
  by (simp add: prop_read_def)

text \<open>
  The claim as first stated has \<open>update\<close> reject whenever the merged memo has an empty
  field. On the seeded store \<open>update(0, {data: ""})\<close> is accepted: the merged memo has
  the empty \<open>data\<close>, it is returned and it is stored.
\<close>

theorem update_accepts_empty_data_counterexample:
  "isValidIndex note_decorated 0 \<and>
   data (spread (this_data note_decorated ! nat 0) \<lparr> data_prop = Some (Str []), author_prop = None \<rparr>)
     = Str [] \<and>
   update note_decorated 0 \<lparr> data_prop = Some (Str []), author_prop = None \<rparr> =
     (Inr \<lparr> data = Str [], author = Str ''saltyaom'' \<rparr>,
      \<lparr> this_data = [\<lparr> data = Str [], author = Str ''saltyaom'' \<rparr>] \<rparr>)"
  by (simp add: update_def isValidIndex_def note_decorated_def new_Note_def seed_def
      prop_read_def spread_def Let_def)

text \<open>
  Claim C5: on a store of length \<open>n\<close> and an integer index \<open>i\<close>, each of \<open>get\<close>, \<open>update\<close>
  and \<open>remove\<close> fails with \<open>InvalidIndex\<close> exactly when \<open>i < 0\<close> or \<open>i \<ge> n\<close>; on an
  empty store index 0 fails with \<open>InvalidIndex\<close> for all three.
\<close>

theorem invalid_index_rule:
  "((\<exists>msg. fst (get note i) = Inl (InvalidIndex msg)) \<longleftrightarrow>
      i < 0 \<or> i \<ge> int (length (this_data note))) \<and>
   ((\<exists>msg. fst (update note i p) = Inl (InvalidIndex msg)) \<longleftrightarrow>
      i < 0 \<or> i \<ge> int (length (this_data note))) \<and>
   ((\<exists>msg. fst (remove note i) = Inl (InvalidIndex msg)) \<longleftrightarrow>
      i < 0 \<or> i \<ge> int (length (this_data note))) \<and>
   (this_data note = [] \<longrightarrow>
      (\<exists>msg. fst (get note 0) = Inl (InvalidIndex msg)) \<and>
      (\<exists>msg. fst (update note 0 p) = Inl (InvalidIndex msg)) \<and>
      (\<exists>msg. fst (remove note 0) = Inl (InvalidIndex msg)))"
  by (auto simp: get_def update_def remove_def isValidIndex_def Let_def)

theorem invalid_index_rule_witness:
  "this_data (snd (clear note_decorated)) = [] \<and>
   (\<exists>msg. fst (get (snd (clear note_decorated)) 0) = Inl (InvalidIndex msg)) \<and>
   (\<exists>msg. fst (update (snd (clear note_decorated)) 0
              \<lparr> data_prop = Some (Str ''x''), author_prop = None \<rparr>) = Inl (InvalidIndex msg)) \<and>
   (\<exists>msg. fst (remove (snd (clear note_decorated)) 0) = Inl (InvalidIndex msg)) \<and>
   \<not> (\<exists>msg. fst (get note_decorated 0) = Inl (InvalidIndex msg))"
  using invalid_index_rule [of "snd (clear note_decorated)" 0
          "\<lparr> data_prop = Some (Str ''x''), author_prop = None \<rparr>"]
        invalid_index_rule [of note_decorated 0 "\<lparr> data_prop = Some (Str ''x''), author_prop = None \<rparr>"]
  by (simp add: clear_def note_decorated_def new_Note_def)

subsection \<open>add\<close>

text \<open>
  Claim C7: for a memo \<open>m\<close> whose \<open>data\<close> and \<open>author\<close> are non-empty strings and a store
  of length \<open>n\<close>, \<open>add(m)\<close> appends \<open>m\<close>, returns the whole new sequence of length
  \<open>n + 1\<close>, and \<open>get(n)\<close> afterwards returns \<open>m\<close>; when \<open>data\<close> or \<open>author\<close> is empty or
  absent, \<open>add(m)\<close> fails with \<open>InvalidMemo\<close> and appends nothing.
\<close>

theorem add_appends_and_get_returns:
  "(data m = Str d \<and> d \<noteq> [] \<and> author m = Str a \<and> a \<noteq> [] \<longrightarrow>
      fst (add note m) = Inr (this_data note @ [m]) \<and>
      this_data (snd (add note m)) = this_data note @ [m] \<and>
      length (this_data (snd (add note m))) = length (this_data note) + 1 \<and>
      fst (get (snd (add note m)) (int (length (this_data note)))) = Inr m) \<and>
   (data m = Undefined \<or> data m = Str [] \<or> author m = Undefined \<or> author m = Str [] \<longrightarrow>
      (\<exists>msg. fst (add note m) = Inl (InvalidMemo msg)) \<and> snd (add note m) = note)"
  by (auto simp: add_def get_def isValidIndex_def Let_def)

theorem add_appends_and_get_returns_witness:
  "fst (add note_decorated \<lparr> data = Str ''hello'', author = Str ''alice'' \<rparr>) =
     Inr [seed, \<lparr> data = Str ''hello'', author = Str ''alice'' \<rparr>] \<and>
   fst (get (snd (add note_decorated \<lparr> data = Str ''hello'', author = Str ''alice'' \<rparr>)) 1) =
     Inr \<lparr> data = Str ''hello'', author = Str ''alice'' \<rparr> \<and>
   (\<exists>msg. fst (add note_decorated \<lparr> data = Str ''x'', author = Undefined \<rparr>) = Inl (InvalidMemo msg)) \<and>
   snd (add note_decorated \<lparr> data = Str ''x'', author = Undefined \<rparr>) = note_decorated"
  using add_appends_and_get_returns [of "\<lparr> data = Str ''hello'', author = Str ''alice'' \<rparr>"
          "''hello''" "''alice''" note_decorated]
        add_appends_and_get_returns [of "\<lparr> data = Str ''x'', author = Undefined \<rparr>"
          "''x''" "[]" note_decorated]
  by (simp add: note_decorated_def new_Note_def)

subsection \<open>update\<close>

text \<open>
  Claim C6: for a valid index \<open>i\<close> and a partial memo \<open>p\<close> that supplies \<open>data\<close> or
  \<open>author\<close>, \<open>update(i, p)\<close> merges the supplied fields into the memo at position \<open>i\<close>,
  leaves each unsupplied field at its existing value and returns the merged memo.
  The code does not do that for \<open>{data: "x", author: undefined}\<close>. The check of
  \<open>update\<close> reads \<open>author\<close> as not supplied and lets the call pass on account of
  \<open>data\<close>; the spread then copies the property all the same, and on the seeded store
  the author \<open>saltyaom\<close> is replaced by \<open>undefined\<close>, in the memo returned and in the
  memo stored. With the property missing, \<open>{data: "x"}\<close>, the author is kept.
\<close>

theorem update_explicit_undefined_overwrites_author:
  "isValidIndex note_decorated 0 \<and>
   prop_read (data_prop \<lparr> data_prop = Some (Str ''x''), author_prop = Some Undefined \<rparr>) = Str ''x'' \<and>
   prop_read (author_prop \<lparr> data_prop = Some (Str ''x''), author_prop = Some Undefined \<rparr>) = Undefined \<and>
   author (this_data note_decorated ! nat 0) = Str ''saltyaom'' \<and>
   update note_decorated 0 \<lparr> data_prop = Some (Str ''x''), author_prop = Some Undefined \<rparr> =
     (Inr \<lparr> data = Str ''x'', author = Undefined \<rparr>,
      \<lparr> this_data = [\<lparr> data = Str ''x'', author = Undefined \<rparr>] \<rparr>) \<and>
   update note_decorated 0 \<lparr> data_prop = Some (Str ''x''), author_prop = None \<rparr> =
     (Inr \<lparr> data = Str ''x'', author = Str ''saltyaom'' \<rparr>,
      \<lparr> this_data = [\<lparr> data = Str ''x'', author = Str ''saltyaom'' \<rparr>] \<rparr>)"
  by (simp add: update_def isValidIndex_def note_decorated_def new_Note_def seed_def
      prop_read_def spread_def Let_def)

text \<open>
  Claim C10: for a valid index \<open>i\<close> and a partial memo supplying \<open>data\<close> or \<open>author\<close>,
  \<open>update\<close> leaves the length of the sequence and the memo at every position other than
  \<open>i\<close> as they were.
\<close>

theorem update_frame:
  assumes "isValidIndex note i"
    and "prop_read (data_prop p) \<noteq> Undefined \<or> prop_read (author_prop p) \<noteq> Undefined"
  shows "length (this_data (snd (update note i p))) = length (this_data note) \<and>
         (\<forall>j. j < length (this_data note) \<and> j \<noteq> nat i \<longrightarrow>
              this_data (snd (update note i p)) ! j = this_data note ! j)"
  by (simp add: update_applies [OF assms])

theorem update_frame_witness:
  "isValidIndex (new_Note (Some [seed, \<lparr> data = Str ''hello'', author = Str ''alice'' \<rparr>])) 1 \<and>
   length (this_data (snd (update (new_Note (Some [seed, \<lparr> data = Str ''hello'', author = Str ''alice'' \<rparr>])) 1
      \<lparr> data_prop = Some (Str ''hi''), author_prop = None \<rparr>))) = 2 \<and>
   this_data (snd (update (new_Note (Some [seed, \<lparr> data = Str ''hello'', author = Str ''alice'' \<rparr>])) 1
      \<lparr> data_prop = Some (Str ''hi''), author_prop = None \<rparr>)) ! 0 = seed"
proof -
  let ?n = "new_Note (Some [seed, \<lparr> data = Str ''hello'', author = Str ''alice'' \<rparr>])"
  let ?p = "\<lparr> data_prop = Some (Str ''hi''), author_prop = None \<rparr>"
  have v: "isValidIndex ?n 1"
    by (simp add: isValidIndex_def new_Note_def)
  have s: "prop_read (data_prop ?p) \<noteq> Undefined \<or> prop_read (author_prop ?p) \<noteq> Undefined"
    by (simp add: prop_read_def)
  from update_frame [OF v s]
  have len: "length (this_data (snd (update ?n 1 ?p))) = length (this_data ?n)"
    and rest: "\<forall>j. j < length (this_data ?n) \<and> j \<noteq> nat 1 \<longrightarrow>
                 this_data (snd (update ?n 1 ?p)) ! j = this_data ?n ! j"
    by blast+
  from rest [rule_format, of 0]
  have "this_data (snd (update ?n 1 ?p)) ! 0 = this_data ?n ! 0"
    by (simp add: new_Note_def)
  with v len show ?thesis by (simp add: new_Note_def)
qed

subsection \<open>Failure and the initial store\<close>

text \<open>
  Claim C8: whenever \<open>add\<close>, \<open>get\<close>, \<open>update\<close> or \<open>remove\<close> fails, the stored sequence
  after the call is the sequence before it.
\<close>

theorem failed_operation_leaves_store:
  "(fst (add note m) = Inl e \<longrightarrow> snd (add note m) = note) \<and>
   (fst (get note i) = Inl e \<longrightarrow> snd (get note i) = note) \<and>
   (fst (update note i p) = Inl e \<longrightarrow> snd (update note i p) = note) \<and>
   (fst (remove note i) = Inl e \<longrightarrow> snd (remove note i) = note)"
  by (auto simp: add_def get_def update_def remove_def Let_def split: if_splits)

theorem failed_operation_leaves_store_witness:
  "fst (add note_decorated \<lparr> data = Str [], author = Str ''x'' \<rparr>) =
     Inl (InvalidMemo ''Invalid memo: 'data' and 'author' fields are required.'') \<and>
   snd (add note_decorated \<lparr> data = Str [], author = Str ''x'' \<rparr>) = note_decorated \<and>
   fst (get note_decorated 1) = Inl (InvalidIndex ''Invalid index: Unable to retrieve memo.'') \<and>
   snd (get note_decorated 1) = note_decorated \<and>
   fst (update note_decorated 0 \<lparr> data_prop = None, author_prop = None \<rparr>) =
     Inl (InvalidMemo ''Invalid memo: At least one field ('data' or 'author') is required to update.'') \<and>
   snd (update note_decorated 0 \<lparr> data_prop = None, author_prop = None \<rparr>) = note_decorated \<and>
   fst (remove note_decorated (- 1)) = Inl (InvalidIndex ''Invalid index: Unable to remove memo.'') \<and>
   snd (remove note_decorated (- 1)) = note_decorated"
  using failed_operation_leaves_store [of note_decorated "\<lparr> data = Str [], author = Str ''x'' \<rparr>"
          "InvalidMemo ''Invalid memo: 'data' and 'author' fields are required.''"]
        failed_operation_leaves_store [of note_decorated _
          "InvalidIndex ''Invalid index: Unable to retrieve memo.''" 1]
        failed_operation_leaves_store [of note_decorated _
          "InvalidMemo ''Invalid memo: At least one field ('data' or 'author') is required to update.''"
          0 "\<lparr> data_prop = None, author_prop = None \<rparr>"]
        failed_operation_leaves_store [of note_decorated _
          "InvalidIndex ''Invalid index: Unable to remove memo.''" "- 1"]
  by (simp add: add_def get_def update_def remove_def isValidIndex_def prop_read_def
      note_decorated_def new_Note_def)

text \<open>
  Claim C9: the constructor called without an argument initialises the sequence to the
  single memo \<open>{data: "Moonhalo", author: "saltyaom"}\<close>; this is the store the routes
  are decorated with, so the first list before any mutation returns that one memo.
\<close>

theorem store_starts_with_seed:
  "new_Note None = \<lparr> this_data = [\<lparr> data = Str ''Moonhalo'', author = Str ''saltyaom'' \<rparr>] \<rparr> \<and>
   note_decorated = new_Note None \<and>
   fst (getAll note_decorated) = [\<lparr> data = Str ''Moonhalo'', author = Str ''saltyaom'' \<rparr>] \<and>
   fst (get_note note_decorated) = Returned [\<lparr> data = Str ''Moonhalo'', author = Str ''saltyaom'' \<rparr>]"
  by (simp add: new_Note_def note_decorated_def seed_def getAll_def get_note_def)

subsection \<open>The author a route passes on\<close>

text \<open>
  Claim C4: the handler of \<open>PUT /note\<close> calls \<open>add\<close> with \<open>author\<close> equal to the resolved
  username, and the handler of \<open>PATCH /note/:index\<close> calls \<open>update\<close> with \<open>author\<close> equal
  to the resolved username, whatever the body holds beside \<open>data\<close>. So the memo the
  first one stores and the memo the second one rewrites carry that username as author,
  and when the store method throws nothing is stored.
\<close>

theorem handlers_force_author:
  "put_note note body username =
     respond 400 (add note \<lparr> data = Str (body_data body), author = Str username \<rparr>) \<and>
   patch_note_index note i body username =
     respond 422 (update note i
        \<lparr> data_prop = Some (Str (body_data body)), author_prop = Some (Str username) \<rparr>) \<and>
   (body_data body \<noteq> [] \<and> username \<noteq> [] \<longrightarrow>
      put_note note body username =
        (Returned (this_data note @ [\<lparr> data = Str (body_data body), author = Str username \<rparr>]),
         note \<lparr> this_data :=
           this_data note @ [\<lparr> data = Str (body_data body), author = Str username \<rparr>] \<rparr>)) \<and>
   (body_data body = [] \<or> username = [] \<longrightarrow> snd (put_note note body username) = note) \<and>
   (isValidIndex note i \<longrightarrow>
      fst (patch_note_index note i body username) =
        Returned \<lparr> data = Str (body_data body), author = Str username \<rparr> \<and>
      this_data (snd (patch_note_index note i body username)) ! nat i =
        \<lparr> data = Str (body_data body), author = Str username \<rparr>) \<and>
   (\<not> isValidIndex note i \<longrightarrow> snd (patch_note_index note i body username) = note)"
  by (auto simp: put_note_def patch_note_index_def respond_def add_def update_def Let_def
      prop_read_def spread_def isValidIndex_def)

text \<open>
  The witness sends bodies that carry, beside \<open>data\<close>, a value of the client's own
  (\<open>mallory\<close>); the memos stored have the author \<open>alice\<close>.
\<close>

theorem handlers_force_author_witness:
  "isValidIndex note_decorated 0 \<and>
   put_note note_decorated \<lparr> body_data = ''hello'', \<dots> = ''mallory'' \<rparr> ''alice'' =
     (Returned [seed, \<lparr> data = Str ''hello'', author = Str ''alice'' \<rparr>],
      \<lparr> this_data = [seed, \<lparr> data = Str ''hello'', author = Str ''alice'' \<rparr>] \<rparr>) \<and>
   fst (patch_note_index note_decorated 0 \<lparr> body_data = ''hi'', \<dots> = ''mallory'' \<rparr> ''alice'') =
     Returned \<lparr> data = Str ''hi'', author = Str ''alice'' \<rparr> \<and>
   snd (put_note note_decorated \<lparr> body_data = ''hello'', \<dots> = ''mallory'' \<rparr> []) = note_decorated \<and>
   \<not> isValidIndex note_decorated 1 \<and>
   snd (patch_note_index note_decorated 1 \<lparr> body_data = ''hi'', \<dots> = ''mallory'' \<rparr> ''alice'')
     = note_decorated"
proof -
  let ?hello = "\<lparr> body_data = ''hello'', \<dots> = ''mallory'' \<rparr>"
  let ?hi = "\<lparr> body_data = ''hi'', \<dots> = ''mallory'' \<rparr>"
  have valid: "isValidIndex note_decorated 0" and invalid: "\<not> isValidIndex note_decorated 1"
    by (simp_all add: isValidIndex_def note_decorated_def new_Note_def)
  have put: "put_note note_decorated ?hello ''alice'' =
      (Returned (this_data note_decorated @ [\<lparr> data = Str ''hello'', author = Str ''alice'' \<rparr>]),
       note_decorated \<lparr> this_data :=
         this_data note_decorated @ [\<lparr> data = Str ''hello'', author = Str ''alice'' \<rparr>] \<rparr>)"
    using handlers_force_author [of note_decorated ?hello "''alice''" 0,
        THEN conjunct2, THEN conjunct2, THEN conjunct1]
    by simp
  have put_rejected: "snd (put_note note_decorated ?hello []) = note_decorated"
    using handlers_force_author [of note_decorated ?hello "[]" 0,
        THEN conjunct2, THEN conjunct2, THEN conjunct2, THEN conjunct1]
    by simp
  have patch: "fst (patch_note_index note_decorated 0 ?hi ''alice'') =
      Returned \<lparr> data = Str ''hi'', author = Str ''alice'' \<rparr>"
    using valid handlers_force_author [of note_decorated ?hi "''alice''" 0,
        THEN conjunct2, THEN conjunct2, THEN conjunct2, THEN conjunct2, THEN conjunct1]
    by simp
  have patch_rejected: "snd (patch_note_index note_decorated 1 ?hi ''alice'') = note_decorated"
    using invalid handlers_force_author [of note_decorated ?hi "''alice''" 1,
        THEN conjunct2, THEN conjunct2, THEN conjunct2, THEN conjunct2, THEN conjunct2]
    by simp
  have "put_note note_decorated ?hello ''alice'' =
     (Returned [seed, \<lparr> data = Str ''hello'', author = Str ''alice'' \<rparr>],
      \<lparr> this_data = [seed, \<lparr> data = Str ''hello'', author = Str ''alice'' \<rparr>] \<rparr>)"
    using put by (simp add: note_decorated_def new_Note_def)
  with valid invalid put_rejected patch patch_rejected show ?thesis
    by blast
qed

end
